theory Spec2Isabelle
  imports Main
begin

section \<open>JavaScript values\<close>

text \<open>
  The library is TypeScript compiled to JavaScript: its containers are plain objects whose
  fields are closures, and its predicates and wrappers inspect arbitrary values at run time.
  The model therefore has one type of values. An object is the list of its property
  definitions in the order they are written; as in an object literal, a later definition of
  a key overrides an earlier one. A function value is either one of the arrow functions the
  library creates (a \<open>closure\<close>, carrying the variable it captured) or a function supplied
  by the caller, known by its reference (\<open>ExternFn\<close>) and run by an environment.
  Objects are compared by their contents: reference identity is not modelled.
\<close>

datatype error_class = Error | TypeError

datatype val =
    Undefined
  | Null
  | BoolV bool
  | NumV int
  | StrV string
  | ErrorV error_class string
  | ObjV "(string \<times> val) list"
  | FunV closure
  | ExternFn nat
and closure =
    Nothing_flatMap | Nothing_forEach | Nothing_get | Nothing_join | Nothing_map | Nothing_use
  | Just_flatMap val | Just_forEach val | Just_get val | Just_join val | Just_map val | Just_use val
  | Err_flatMap val | Err_forEach val | Err_get val | Err_getError val | Err_getValue val
  | Err_join val | Err_map val | Err_use val
  | Ok_flatMap val | Ok_forEach val | Ok_get val | Ok_getError val | Ok_getValue val
  | Ok_join val | Ok_map val | Ok_use val

text \<open>
  A call either throws a value (\<open>Inl\<close>) or returns one (\<open>Inr\<close>), and it may change the
  caller's state \<open>'s\<close> (what a callback does besides returning: a counter of calls, a log).
\<close>

type_synonym 's outcome = "(val + val) \<times> 's"

type_synonym 's extern = "nat \<Rightarrow> val list \<Rightarrow> 's \<Rightarrow> 's outcome"

text \<open>\<^verbatim>\<open>a instanceof Error\<close>: true of \<^verbatim>\<open>Error\<close> and of its subclass \<^verbatim>\<open>TypeError\<close>.\<close>

definition instanceof_Error :: "val \<Rightarrow> bool" where
  "instanceof_Error a = (case a of ErrorV c m \<Rightarrow> True | _ \<Rightarrow> False)"

text \<open>
  \<^verbatim>\<open>a.k\<close>: reading a property of \<^verbatim>\<open>undefined\<close> or \<^verbatim>\<open>null\<close> throws a TypeError; a key an
  object does not define reads as \<^verbatim>\<open>undefined\<close>. Of the built-in properties only an error's
  \<^verbatim>\<open>message\<close> is modelled; the keys the library reads (\<^verbatim>\<open>isNothing\<close>, \<^verbatim>\<open>isOk\<close>) are not
  built-in properties of any value.
\<close>

definition get_prop :: "val \<Rightarrow> string \<Rightarrow> val + val" where
  "get_prop a k =
     (case a of
        Undefined \<Rightarrow> Inl (ErrorV TypeError ''cannot read property of undefined'')
      | Null \<Rightarrow> Inl (ErrorV TypeError ''cannot read property of null'')
      | ObjV ps \<Rightarrow> Inr (case map_of (rev ps) k of None \<Rightarrow> Undefined | Some v \<Rightarrow> v)
      | ErrorV c m \<Rightarrow> Inr (if k = ''message'' then StrV m else Undefined)
      | _ \<Rightarrow> Inr Undefined)"

text \<open>
  The property definitions an object spread \<^verbatim>\<open>...a\<close> copies, and the keys among them. Only
  an object has such definitions in the model; the wrappers never spread anything else
  (the resolved container is always an object, as proved below).
\<close>

definition own_props :: "val \<Rightarrow> (string \<times> val) list" where
  "own_props a = (case a of ObjV ps \<Rightarrow> ps | _ \<Rightarrow> [])"

definition keys :: "val \<Rightarrow> string set" where
  "keys a = set (map fst (own_props a))"

text \<open>The \<open>i\<close>-th argument of a call; a missing argument is \<^verbatim>\<open>undefined\<close>.\<close>

definition arg :: "nat \<Rightarrow> val list \<Rightarrow> val" where
  "arg i args = (if i < length args then args ! i else Undefined)"

section \<open>The optional container (maybe.ts)\<close>

definition Nothing :: val where
  "Nothing = ObjV
     [(''flatMap'', FunV Nothing_flatMap),
      (''forEach'', FunV Nothing_forEach),
      (''get'', FunV Nothing_get),
      (''isNothing'', BoolV True),
      (''join'', FunV Nothing_join),
      (''map'', FunV Nothing_map),
      (''use'', FunV Nothing_use),
      (''value'', Undefined)]"

definition Just :: "val \<Rightarrow> val + val" where
  "Just a =
     (if a = Undefined \<or> a = Null then
        Inl (ErrorV TypeError
          ''invalid argument provided to Just: undefined and null values are not allowed'')
      else Inr (ObjV
        [(''flatMap'', FunV (Just_flatMap a)),
         (''forEach'', FunV (Just_forEach a)),
         (''get'', FunV (Just_get a)),
         (''isNothing'', BoolV False),
         (''join'', FunV (Just_join a)),
         (''map'', FunV (Just_map a)),
         (''use'', FunV (Just_use a)),
         (''value'', a)]))"

definition Maybe :: "val \<Rightarrow> val + val" where
  "Maybe a = (if a = Undefined \<or> a = Null then Inr Nothing else Just a)"

text \<open>The fields of the interfaces \<^verbatim>\<open>Just\<close> and \<^verbatim>\<open>Nothing\<close>, both extending \<^verbatim>\<open>MaybeOps\<close>.\<close>

definition Maybe_keys :: "string set" where
  "Maybe_keys =
     {''flatMap'', ''forEach'', ''get'', ''isNothing'', ''join'', ''map'', ''use'', ''value''}"

definition isMaybe :: "val \<Rightarrow> val + bool" where
  "isMaybe a = (case get_prop a ''isNothing'' of Inl e \<Rightarrow> Inl e | Inr v \<Rightarrow> Inr (v \<noteq> Undefined))"

section \<open>The Result container (result.ts)\<close>

definition Err :: "val \<Rightarrow> val + val" where
  "Err e =
     (if \<not> instanceof_Error e then
        Inl (ErrorV TypeError ''invalid argument provided to Err: only Error values are allowed'')
      else Inr (ObjV
        [(''flatMap'', FunV (Err_flatMap e)),
         (''forEach'', FunV (Err_forEach e)),
         (''get'', FunV (Err_get e)),
         (''getError'', FunV (Err_getError e)),
         (''getValue'', FunV (Err_getValue e)),
         (''isOk'', BoolV False),
         (''join'', FunV (Err_join e)),
         (''map'', FunV (Err_map e)),
         (''use'', FunV (Err_use e)),
         (''value'', e)]))"

definition Ok :: "val \<Rightarrow> val + val" where
  "Ok a =
     (if instanceof_Error a then
        Inl (ErrorV TypeError ''invalid argument provided to Ok: Error values are not allowed'')
      else Inr (ObjV
        [(''flatMap'', FunV (Ok_flatMap a)),
         (''forEach'', FunV (Ok_forEach a)),
         (''get'', FunV (Ok_get a)),
         (''getError'', FunV (Ok_getError a)),
         (''getValue'', FunV (Ok_getValue a)),
         (''isOk'', BoolV True),
         (''join'', FunV (Ok_join a)),
         (''map'', FunV (Ok_map a)),
         (''use'', FunV (Ok_use a)),
         (''value'', a)]))"

definition Result :: "val \<Rightarrow> val + val" where
  "Result a = (if instanceof_Error a then Err a else Ok a)"

text \<open>The fields of the interfaces \<^verbatim>\<open>Ok\<close> and \<^verbatim>\<open>Err\<close>, both extending \<^verbatim>\<open>ResultOps\<close>.\<close>

definition Result_keys :: "string set" where
  "Result_keys =
     {''flatMap'', ''forEach'', ''get'', ''getError'', ''getValue'', ''isOk'', ''join'', ''map'',
      ''use'', ''value''}"

definition isResult :: "val \<Rightarrow> val + bool" where
  "isResult a = (case get_prop a ''isOk'' of Inl e \<Rightarrow> Inl e | Inr v \<Rightarrow> Inr (v \<noteq> Undefined))"

section \<open>Calling a function value\<close>

text \<open>
  One equation for each arrow function of \<^verbatim>\<open>Nothing\<close>, \<^verbatim>\<open>Just\<close>, \<^verbatim>\<open>Err\<close> and \<^verbatim>\<open>Ok\<close>, with
  the body the source gives it. A callback is a value like any other: calling a caller's
  function runs it in the environment \<open>ext\<close>, calling what is not a function throws a
  TypeError.
\<close>

definition not_a_function :: val where
  "not_a_function = ErrorV TypeError ''not a function''"

function call :: "'s extern \<Rightarrow> val \<Rightarrow> val list \<Rightarrow> 's \<Rightarrow> 's outcome" where
  "call ext (FunV Nothing_flatMap) args t = (Inr Nothing, t)"
| "call ext (FunV Nothing_forEach) args t = (Inr Undefined, t)"
| "call ext (FunV Nothing_get) args t = (Inl (ErrorV TypeError ''value is undefined''), t)"
| "call ext (FunV Nothing_join) args t = call ext (arg 0 args) [] t"
| "call ext (FunV Nothing_map) args t = (Inr Nothing, t)"
| "call ext (FunV Nothing_use) args t = (Inr Undefined, t)"
| "call ext (FunV (Just_flatMap a)) args t = call ext (arg 0 args) [a] t"
| "call ext (FunV (Just_forEach a)) args t = call ext (arg 0 args) [a] t"
| "call ext (FunV (Just_get a)) args t = (Inr a, t)"
| "call ext (FunV (Just_join a)) args t = call ext (arg 1 args) [a] t"
| "call ext (FunV (Just_map a)) args t =
     (case call ext (arg 0 args) [a] t of
        (Inl e, t') \<Rightarrow> (Inl e, t')
      | (Inr b, t') \<Rightarrow> (Maybe b, t'))"
| "call ext (FunV (Just_use a)) args t = call ext (arg 0 args) [a] t"
| "call ext (FunV (Err_flatMap e)) args t = (Err e, t)"
| "call ext (FunV (Err_forEach e)) args t = (Inr Undefined, t)"
| "call ext (FunV (Err_get e)) args t = (Inl e, t)"
| "call ext (FunV (Err_getError e)) args t = (Inr e, t)"
| "call ext (FunV (Err_getValue e)) args t = (Inr Undefined, t)"
| "call ext (FunV (Err_join e)) args t = call ext (arg 0 args) [e] t"
| "call ext (FunV (Err_map e)) args t = (Err e, t)"
| "call ext (FunV (Err_use e)) args t = (Inr Undefined, t)"
| "call ext (FunV (Ok_flatMap a)) args t = call ext (arg 0 args) [a] t"
| "call ext (FunV (Ok_forEach a)) args t = call ext (arg 0 args) [a] t"
| "call ext (FunV (Ok_get a)) args t = (Inr a, t)"
| "call ext (FunV (Ok_getError a)) args t = (Inr Undefined, t)"
| "call ext (FunV (Ok_getValue a)) args t = (Inr a, t)"
| "call ext (FunV (Ok_join a)) args t = call ext (arg 1 args) [a] t"
| "call ext (FunV (Ok_map a)) args t =
     (case call ext (arg 0 args) [a] t of
        (Inl e, t') \<Rightarrow> (Inl e, t')
      | (Inr b, t') \<Rightarrow> (Result b, t'))"
| "call ext (FunV (Ok_use a)) args t = call ext (arg 0 args) [a] t"
| "call ext (ExternFn n) args t = ext n args t"
| "call ext Undefined args t = (Inl not_a_function, t)"
| "call ext Null args t = (Inl not_a_function, t)"
| "call ext (BoolV b) args t = (Inl not_a_function, t)"
| "call ext (NumV i) args t = (Inl not_a_function, t)"
| "call ext (StrV s) args t = (Inl not_a_function, t)"
| "call ext (ErrorV c m) args t = (Inl not_a_function, t)"
| "call ext (ObjV ps) args t = (Inl not_a_function, t)"
  by pat_completeness auto

termination call
proof -
  have member: "size x < Suc (size_list size xs)" if "x \<in> set xs" for x :: val and xs
    using that by (induction xs) auto
  have bound: "size (arg i args) \<le> size_list size args" for i args
    using member [of "args ! i" args] by (auto simp: arg_def)
  show ?thesis
  proof (relation "measure (\<lambda>(ext, v, args, t). size v + size_list size args)", goal_cases)
    case 1
    show ?case by simp
  next
    case (2 ext args t)
    show ?case using bound [of 0 args] by simp
  qed (use bound in \<open>simp_all add: less_Suc_eq_le le_SucI\<close>)
qed


text \<open>\<^verbatim>\<open>obj.m(args)\<close>: read the property, then call it.\<close>

definition invoke :: "'s extern \<Rightarrow> val \<Rightarrow> string \<Rightarrow> val list \<Rightarrow> 's \<Rightarrow> 's outcome" where
  "invoke ext obj m args t =
     (case get_prop obj m of Inl e \<Rightarrow> (Inl e, t) | Inr f \<Rightarrow> call ext f args t)"

section \<open>The selector wrappers (maybe-selector.ts, result-selector.ts)\<close>

text \<open>
  A selector factory is taken to return, without an effect of its own, an object of named
  accessors, given here by its property definitions. \<open>MaybeSelector_result\<close> and
  \<open>ResultSelector_result\<close> are the
  \<^verbatim>\<open>let result\<close> blocks of the two wrappers; the wrappers then build
  \<^verbatim>\<open>{ ...result, ...selectorFactory(s, result) }\<close>.
\<close>

type_synonym 'st selectorFactory = "'st \<Rightarrow> val \<Rightarrow> (string \<times> val) list"

definition MaybeSelector_result :: "val \<Rightarrow> val + val" where
  "MaybeSelector_result r =
     (if r = Undefined then Inr Nothing
      else case isMaybe r of
             Inl e \<Rightarrow> Inl e
           | Inr True \<Rightarrow> Inr r
           | Inr False \<Rightarrow> Just r)"

definition MaybeSelector :: "'st selectorFactory \<Rightarrow> 'st \<Rightarrow> val \<Rightarrow> val + val" where
  "MaybeSelector selectorFactory s r =
     (case MaybeSelector_result r of
        Inl e \<Rightarrow> Inl e
      | Inr result \<Rightarrow> Inr (ObjV (own_props result @ selectorFactory s result)))"

definition ResultSelector_result :: "val \<Rightarrow> val + val" where
  "ResultSelector_result r =
     (if r = Undefined then Err (ErrorV Error ''result is undefined'')
      else case isResult r of
             Inl e \<Rightarrow> Inl e
           | Inr True \<Rightarrow> Inr r
           | Inr False \<Rightarrow> Result r)"

definition ResultSelector :: "'st selectorFactory \<Rightarrow> 'st \<Rightarrow> val \<Rightarrow> val + val" where
  "ResultSelector selectorFactory s r =
     (case ResultSelector_result r of
        Inl e \<Rightarrow> Inl e
      | Inr result \<Rightarrow> Inr (ObjV (own_props result @ selectorFactory s result)))"

section \<open>Fixtures\<close>

text \<open>
  The caller's functions used at concrete inputs, all counting their calls in the state, as
  the test suite's \<^verbatim>\<open>jest.fn()\<close> stubs do:
  \<^item> 0: \<^verbatim>\<open>jest.fn()\<close>, which returns \<^verbatim>\<open>undefined\<close>;
  \<^item> 1: \<^verbatim>\<open>r => r.profileUrl\<close> of the selector tests;
  \<^item> 2: \<^verbatim>\<open>() => new Error("e")\<close>;
  \<^item> 3: \<^verbatim>\<open>a => Maybe(a)\<close>;
  \<^item> 4: \<^verbatim>\<open>u => user(state, u)\<close>, for the wrapper \<^verbatim>\<open>user\<close> of the selector tests;
  \<^item> any other: \<^verbatim>\<open>() => null\<close>.
\<close>

text \<open>
  The selector factory of the tests, \<^verbatim>\<open>(_, result) => ({ profileUrl() { ... } })\<close>: one
  accessor, a function of the caller. The two other factories define a key that a
  container defines too, \<^verbatim>\<open>value\<close> and \<^verbatim>\<open>map\<close>.
\<close>

definition user_selectors :: "'st selectorFactory" where
  "user_selectors s result = [(''profileUrl'', ExternFn 10)]"

definition value_selectors :: "'st selectorFactory" where
  "value_selectors s result = [(''value'', NumV 42)]"

definition map_selectors :: "'st selectorFactory" where
  "map_selectors s result = [(''map'', ExternFn 11)]"

definition stubs :: "nat extern" where
  "stubs n args t =
     (if n = 0 then (Inr Undefined, Suc t)
      else if n = 1 then (get_prop (arg 0 args) ''profileUrl'', Suc t)
      else if n = 2 then (Inr (ErrorV Error ''e''), Suc t)
      else if n = 3 then (Maybe (arg 0 args), Suc t)
      else if n = 4 then (MaybeSelector user_selectors () (arg 0 args), Suc t)
      else (Inr Null, Suc t))"

text \<open>The user record of the tests' initial state.\<close>

definition user1 :: val where
  "user1 = ObjV
     [(''createdAt'', StrV []),
      (''id'', StrV ''1''),
      (''profileUrl'', StrV ''http://website.test/user/1/profile'')]"

section \<open>Construction\<close>

text \<open>
  C7. Optional construction contract: \<^verbatim>\<open>Maybe(undefined)\<close> and \<^verbatim>\<open>Maybe(null)\<close> both yield
  the absent variant (whose tag \<^verbatim>\<open>isNothing\<close> is true); the direct constructor \<^verbatim>\<open>Just(a)\<close>
  throws a TypeError when \<open>a\<close> is \<^verbatim>\<open>undefined\<close> or \<^verbatim>\<open>null\<close>, and otherwise yields the
  present variant (tag false) whose payload is exactly \<open>a\<close>.
\<close>

theorem Maybe_construction_contract:
  "Maybe Undefined = Inr Nothing \<and> Maybe Null = Inr Nothing
   \<and> get_prop Nothing ''isNothing'' = Inr (BoolV True)
   \<and> (\<exists>m. Just Undefined = Inl (ErrorV TypeError m))
   \<and> (\<exists>m. Just Null = Inl (ErrorV TypeError m))
   \<and> (a \<noteq> Undefined \<and> a \<noteq> Null \<longrightarrow>
        (\<exists>j. Just a = Inr j \<and> get_prop j ''isNothing'' = Inr (BoolV False)
             \<and> get_prop j ''value'' = Inr a))"
  by (simp add: Maybe_def Just_def Nothing_def get_prop_def)

theorem Maybe_construction_contract_witness:
  "StrV ''a'' \<noteq> Undefined \<and> StrV ''a'' \<noteq> Null
   \<and> (\<exists>j. Just (StrV ''a'') = Inr j \<and> get_prop j ''isNothing'' = Inr (BoolV False)
          \<and> get_prop j ''value'' = Inr (StrV ''a''))"
  using Maybe_construction_contract [of "StrV ''a''"] by simp

text \<open>
  C6. The Result smart constructor routes on error-ness only: \<^verbatim>\<open>Result(a)\<close> never throws;
  it is \<^verbatim>\<open>Err(a)\<close>, with tag \<^verbatim>\<open>isOk\<close> false, exactly when \<open>a\<close> is an error object, and
  \<^verbatim>\<open>Ok(a)\<close>, with tag true, otherwise, the payload being \<open>a\<close> in both cases. So
  \<^verbatim>\<open>Result(null)\<close> and \<^verbatim>\<open>Result(undefined)\<close> are Ok containers that wrap \<^verbatim>\<open>null\<close> and
  \<^verbatim>\<open>undefined\<close>, where \<^verbatim>\<open>Maybe\<close> yields the absent variant.
\<close>

theorem Result_routes_on_errorness:
  "(instanceof_Error a \<longrightarrow>
      (\<exists>r. Result a = Inr r \<and> Err a = Inr r \<and> get_prop r ''isOk'' = Inr (BoolV False)
           \<and> get_prop r ''value'' = Inr a))
   \<and> (\<not> instanceof_Error a \<longrightarrow>
      (\<exists>k. Result a = Inr k \<and> Ok a = Inr k \<and> get_prop k ''isOk'' = Inr (BoolV True)
           \<and> get_prop k ''value'' = Inr a))
   \<and> Result Null = Ok Null \<and> Result Undefined = Ok Undefined
   \<and> Result Null \<noteq> Inr Nothing \<and> Result Undefined \<noteq> Inr Nothing"
  by (simp add: Result_def Err_def Ok_def Nothing_def get_prop_def instanceof_Error_def)

theorem Result_routes_on_errorness_witness:
  "instanceof_Error (ErrorV Error ''fail'')
   \<and> (\<exists>r. Result (ErrorV Error ''fail'') = Inr r
          \<and> get_prop r ''isOk'' = Inr (BoolV False)
          \<and> get_prop r ''value'' = Inr (ErrorV Error ''fail''))
   \<and> \<not> instanceof_Error Null
   \<and> (\<exists>k. Result Null = Inr k \<and> get_prop k ''isOk'' = Inr (BoolV True)
          \<and> get_prop k ''value'' = Inr Null)"
  using Result_routes_on_errorness [of "ErrorV Error ''fail''"]
    Result_routes_on_errorness [of Null]
  by (auto simp: instanceof_Error_def)

section \<open>Operations of the containers\<close>

text \<open>
  C4. \<^verbatim>\<open>get()\<close> by variant: on \<^verbatim>\<open>Just(x)\<close>, for \<open>x\<close> neither \<^verbatim>\<open>undefined\<close> nor \<^verbatim>\<open>null\<close>,
  it returns exactly \<open>x\<close>; on \<^verbatim>\<open>Nothing()\<close> it throws the TypeError "value is undefined";
  on \<^verbatim>\<open>Ok(x)\<close>, for \<open>x\<close> not an error object, it returns exactly \<open>x\<close>; on \<^verbatim>\<open>Err(e)\<close>, for
  an error object \<open>e\<close>, it throws \<open>e\<close> itself. No call changes the caller's state. The other
  extractions of an Err or Ok container, \<^verbatim>\<open>getError()\<close> and \<^verbatim>\<open>getValue()\<close>, return and never
  throw.
\<close>

theorem get_by_variant:
  "(x \<noteq> Undefined \<and> x \<noteq> Null \<longrightarrow>
      (\<exists>j. Just x = Inr j \<and> invoke ext j ''get'' [] t = (Inr x, t)))
   \<and> invoke ext Nothing ''get'' [] t = (Inl (ErrorV TypeError ''value is undefined''), t)
   \<and> (\<not> instanceof_Error x \<longrightarrow>
      (\<exists>k. Ok x = Inr k \<and> invoke ext k ''get'' [] t = (Inr x, t)
           \<and> invoke ext k ''getValue'' [] t = (Inr x, t)
           \<and> invoke ext k ''getError'' [] t = (Inr Undefined, t)))
   \<and> (instanceof_Error e \<longrightarrow>
      (\<exists>r. Err e = Inr r \<and> invoke ext r ''get'' [] t = (Inl e, t)
           \<and> invoke ext r ''getValue'' [] t = (Inr Undefined, t)
           \<and> invoke ext r ''getError'' [] t = (Inr e, t)))"
  by (simp add: Just_def Nothing_def Ok_def Err_def invoke_def get_prop_def)

theorem get_by_variant_witness:
  "StrV ''a'' \<noteq> Undefined \<and> StrV ''a'' \<noteq> Null
   \<and> (\<exists>j. Just (StrV ''a'') = Inr j
          \<and> invoke stubs j ''get'' [] 0 = (Inr (StrV ''a''), 0))
   \<and> \<not> instanceof_Error (StrV ''a'')
   \<and> (\<exists>k. Ok (StrV ''a'') = Inr k
          \<and> invoke stubs k ''get'' [] 0 = (Inr (StrV ''a''), 0))
   \<and> instanceof_Error (ErrorV Error ''fail'')
   \<and> (\<exists>r. Err (ErrorV Error ''fail'') = Inr r
          \<and> invoke stubs r ''get'' [] 0 = (Inl (ErrorV Error ''fail''), 0))"
  using get_by_variant [of "StrV ''a''" stubs 0 "ErrorV Error ''fail''"]
  by (auto simp: instanceof_Error_def)

text \<open>
  C3. \<^verbatim>\<open>map\<close> short-circuits on the empty variants. Whatever the arguments, and whatever the
  caller's functions do, \<^verbatim>\<open>Nothing().map(...)\<close> returns the absent container and leaves
  the caller's state as it was, so no function of the caller has run; and for a container
  \<open>r\<close> built by \<^verbatim>\<open>Err(e)\<close>, \<^verbatim>\<open>r.map(...)\<close> returns an Err container equal to \<open>r\<close>, wrapping
  the same \<open>e\<close>, again with the state unchanged. Hence \<^verbatim>\<open>map(f)\<close> and \<^verbatim>\<open>map(g)\<close> agree there
  for all \<open>f\<close> and \<open>g\<close>, in every environment.
\<close>

theorem map_short_circuit:
  "invoke ext Nothing ''map'' args t = (Inr Nothing, t)
   \<and> invoke ext Nothing ''map'' [f] t = invoke ext' Nothing ''map'' [g] t
   \<and> (Err e = Inr r \<longrightarrow>
        invoke ext r ''map'' args t = (Inr r, t)
        \<and> get_prop r ''isOk'' = Inr (BoolV False) \<and> get_prop r ''value'' = Inr e
        \<and> invoke ext r ''map'' [f] t = invoke ext' r ''map'' [g] t)"
  by (auto simp: Nothing_def Err_def invoke_def get_prop_def split: if_splits)

theorem map_short_circuit_witness:
  "invoke stubs Nothing ''map'' [ExternFn 0] 0 = (Inr Nothing, 0)
   \<and> (\<exists>r. Err (ErrorV Error ''fail'') = Inr r
          \<and> invoke stubs r ''map'' [ExternFn 0] 0 = (Inr r, 0)
          \<and> get_prop r ''value'' = Inr (ErrorV Error ''fail''))
   \<and> call stubs (ExternFn 0) [StrV ''a''] 0 = (Inr Undefined, 1)"
proof -
  obtain r where r: "Err (ErrorV Error ''fail'') = Inr r"
    by (simp add: Err_def instanceof_Error_def)
  from map_short_circuit [of stubs "[ExternFn 0]" 0 "ExternFn 0" stubs "ExternFn 0"
      "ErrorV Error ''fail''" r] r
  show ?thesis by (simp add: stubs_def)
qed

text \<open>
  C1. \<^verbatim>\<open>map\<close> re-runs smart construction on the callback's result. For every \<open>x\<close> neither
  \<^verbatim>\<open>undefined\<close> nor \<^verbatim>\<open>null\<close> and every callback that, called with \<open>x\<close>, returns a value
  \<open>b\<close>, \<^verbatim>\<open>Just(x).map(f)\<close> is \<^verbatim>\<open>Maybe(b)\<close>: the absent container (tag \<^verbatim>\<open>isNothing\<close> true),
  not a present one, when \<open>b\<close> is \<^verbatim>\<open>undefined\<close> or \<^verbatim>\<open>null\<close>, and \<^verbatim>\<open>Just(b)\<close> otherwise. For
  every \<open>x\<close> not an error object, \<^verbatim>\<open>Ok(x).map(f)\<close> is \<^verbatim>\<open>Result(b)\<close>: \<^verbatim>\<open>Err(b)\<close> (tag \<^verbatim>\<open>isOk\<close>
  false, payload \<open>b\<close>), not an Ok container, when \<open>b\<close> is an error object, and \<^verbatim>\<open>Ok(b)\<close>
  otherwise. The caller's state is the one the callback left.
\<close>

theorem map_collapse:
  "call ext f [x] t = (Inr b, t') \<Longrightarrow>
   (x \<noteq> Undefined \<and> x \<noteq> Null \<longrightarrow>
      (\<exists>j. Just x = Inr j \<and> invoke ext j ''map'' [f] t = (Maybe b, t')
           \<and> (b = Undefined \<or> b = Null \<longrightarrow>
                 Maybe b = Inr Nothing
                 \<and> get_prop Nothing ''isNothing'' = Inr (BoolV True))
           \<and> (b \<noteq> Undefined \<and> b \<noteq> Null \<longrightarrow> Maybe b = Just b)))
   \<and> (\<not> instanceof_Error x \<longrightarrow>
      (\<exists>k. Ok x = Inr k \<and> invoke ext k ''map'' [f] t = (Result b, t')
           \<and> (instanceof_Error b \<longrightarrow>
                 (\<exists>r. Result b = Inr r \<and> Err b = Inr r
                      \<and> get_prop r ''isOk'' = Inr (BoolV False)
                      \<and> get_prop r ''value'' = Inr b))
           \<and> (\<not> instanceof_Error b \<longrightarrow> Result b = Ok b)))"
  by (auto simp: Just_def Ok_def Err_def Maybe_def Result_def Nothing_def invoke_def
      get_prop_def arg_def)

theorem map_collapse_witness:
  "call stubs (ExternFn 0) [StrV ''a''] 0 = (Inr Undefined, 1)
   \<and> (\<exists>j. Just (StrV ''a'') = Inr j
          \<and> invoke stubs j ''map'' [ExternFn 0] 0 = (Inr Nothing, 1))
   \<and> call stubs (ExternFn 2) [StrV ''a''] 0 = (Inr (ErrorV Error ''e''), 1)
   \<and> (\<exists>k r. Ok (StrV ''a'') = Inr k \<and> Err (ErrorV Error ''e'') = Inr r
          \<and> invoke stubs k ''map'' [ExternFn 2] 0 = (Inr r, 1))
   \<and> call stubs (ExternFn 1) [user1] 0
       = (Inr (StrV ''http://website.test/user/1/profile''), 1)
   \<and> (\<exists>j. Just user1 = Inr j
          \<and> invoke stubs j ''map'' [ExternFn 1] 0
              = (Just (StrV ''http://website.test/user/1/profile''), 1))
   \<and> (\<exists>k. Ok user1 = Inr k
          \<and> invoke stubs k ''map'' [ExternFn 1] 0
              = (Ok (StrV ''http://website.test/user/1/profile''), 1))"
proof -
  have f: "call stubs (ExternFn 0) [StrV ''a''] 0 = (Inr Undefined, 1)"
    by (simp add: stubs_def)
  have g: "call stubs (ExternFn 2) [StrV ''a''] 0 = (Inr (ErrorV Error ''e''), 1)"
    by (simp add: stubs_def)
  have h: "call stubs (ExternFn 1) [user1] 0
      = (Inr (StrV ''http://website.test/user/1/profile''), 1)"
    by (simp add: stubs_def arg_def user1_def get_prop_def)
  have u: "user1 \<noteq> Undefined" "user1 \<noteq> Null" "\<not> instanceof_Error user1"
    by (simp_all add: user1_def instanceof_Error_def)
  from map_collapse [OF f] map_collapse [OF g] map_collapse [OF h] f g h u
  show ?thesis by (auto simp: instanceof_Error_def)
qed

text \<open>
  C9. \<^verbatim>\<open>flatMap\<close> left identity: for \<open>x\<close> neither \<^verbatim>\<open>undefined\<close> nor \<^verbatim>\<open>null\<close> and every
  callback \<open>f\<close>, \<^verbatim>\<open>Just(x).flatMap(f)\<close> is exactly the call \<^verbatim>\<open>f(x)\<close>: the same returned
  container (or thrown value) and the same effect on the caller's state, with nothing
  wrapped or validated again.
\<close>

theorem flatMap_left_identity:
  "x \<noteq> Undefined \<Longrightarrow> x \<noteq> Null \<Longrightarrow>
   \<exists>j. Just x = Inr j \<and> invoke ext j ''flatMap'' [f] t = call ext f [x] t"
  by (simp add: Just_def invoke_def get_prop_def arg_def)

theorem flatMap_left_identity_witness:
  "StrV ''a'' \<noteq> Undefined \<and> StrV ''a'' \<noteq> Null
   \<and> (\<exists>j. Just (StrV ''a'') = Inr j
          \<and> invoke stubs j ''flatMap'' [ExternFn 3] 0 = (Just (StrV ''a''), 1))"
  using flatMap_left_identity [of "StrV ''a''" stubs "ExternFn 3" 0]
  by (simp add: stubs_def Maybe_def arg_def)

section \<open>The selector wrappers\<close>

lemma get_prop_spread:
  "k \<notin> fst ` set qs \<Longrightarrow> get_prop (ObjV (own_props (ObjV ps) @ qs)) k = get_prop (ObjV ps) k"
proof -
  assume "k \<notin> fst ` set qs"
  then have "map_of (rev qs) k = None"
    by (simp add: map_of_eq_None_iff)
  then show ?thesis
    by (simp add: get_prop_def own_props_def map_add_def)
qed

lemma isMaybe_object: "isMaybe r = Inr True \<Longrightarrow> \<exists>ps. r = ObjV ps"
  by (cases r) (auto simp: isMaybe_def get_prop_def)

lemma isResult_object: "isResult r = Inr True \<Longrightarrow> \<exists>ps. r = ObjV ps"
  by (cases r) (auto simp: isResult_def get_prop_def)

text \<open>
  C5. The Result-selector wrapper on an undefined result: for every factory and state, the
  container it resolves is \<^verbatim>\<open>Err(new Error("result is undefined"))\<close>, tag \<^verbatim>\<open>isOk\<close> false,
  whose payload is an error with exactly that message; it is not the absent container. The
  wrapper returns that container's properties followed by the factory's, so every key the
  factory does not define reads as on the Err container. As in the tests' missing-user
  scenario, \<^verbatim>\<open>map\<close> on it gives an Err container again, and \<^verbatim>\<open>get()\<close> on that throws the
  error with this message.
\<close>

theorem ResultSelector_undefined:
  "\<exists>r. Err (ErrorV Error ''result is undefined'') = Inr r
      \<and> ResultSelector_result Undefined = Inr r
      \<and> ResultSelector F s Undefined = Inr (ObjV (own_props r @ F s r))
      \<and> (\<forall>k. k \<notin> fst ` set (F s r) \<longrightarrow>
            get_prop (ObjV (own_props r @ F s r)) k = get_prop r k)
      \<and> get_prop r ''isOk'' = Inr (BoolV False)
      \<and> get_prop r ''value'' = Inr (ErrorV Error ''result is undefined'')
      \<and> get_prop (ErrorV Error ''result is undefined'') ''message''
          = Inr (StrV ''result is undefined'')
      \<and> r \<noteq> Nothing
      \<and> invoke ext r ''map'' [f] t = (Inr r, t)
      \<and> invoke ext r ''get'' [] t = (Inl (ErrorV Error ''result is undefined''), t)"
proof -
  obtain ps where r: "Err (ErrorV Error ''result is undefined'') = Inr (ObjV ps)"
    by (simp add: Err_def instanceof_Error_def)
  have "ResultSelector_result Undefined = Inr (ObjV ps)"
    using r by (simp add: ResultSelector_result_def)
  moreover from this have
    "ResultSelector F s Undefined = Inr (ObjV (own_props (ObjV ps) @ F s (ObjV ps)))"
    by (simp add: ResultSelector_def)
  moreover have "\<forall>k. k \<notin> fst ` set (F s (ObjV ps)) \<longrightarrow>
      get_prop (ObjV (own_props (ObjV ps) @ F s (ObjV ps))) k = get_prop (ObjV ps) k"
    by (simp add: get_prop_spread)
  moreover have "get_prop (ObjV ps) ''isOk'' = Inr (BoolV False)"
      "get_prop (ObjV ps) ''value'' = Inr (ErrorV Error ''result is undefined'')"
      "ObjV ps \<noteq> Nothing"
      "invoke ext (ObjV ps) ''map'' [f] t = (Inr (ObjV ps), t)"
      "invoke ext (ObjV ps) ''get'' [] t = (Inl (ErrorV Error ''result is undefined''), t)"
    using r by (auto simp: Err_def instanceof_Error_def Nothing_def get_prop_def invoke_def)
  moreover have "get_prop (ErrorV Error ''result is undefined'') ''message''
      = Inr (StrV ''result is undefined'')"
    by (simp add: get_prop_def)
  ultimately show ?thesis using r by blast
qed

theorem ResultSelector_undefined_witness:
  "\<exists>r. Err (ErrorV Error ''result is undefined'') = Inr r
      \<and> ResultSelector user_selectors () Undefined
          = Inr (ObjV (own_props r @ [(''profileUrl'', ExternFn 10)]))
      \<and> ''isOk'' \<notin> fst ` set (user_selectors () r)
      \<and> get_prop (ObjV (own_props r @ user_selectors () r)) ''isOk'' = Inr (BoolV False)
      \<and> invoke stubs r ''map'' [ExternFn 1] 0 = (Inr r, 0)
      \<and> invoke stubs r ''get'' [] 0 = (Inl (ErrorV Error ''result is undefined''), 0)"
proof -
  from ResultSelector_undefined [of user_selectors "()" stubs "ExternFn 1" 0]
  obtain r where r: "Err (ErrorV Error ''result is undefined'') = Inr r"
      "ResultSelector user_selectors () Undefined = Inr (ObjV (own_props r @ user_selectors () r))"
      "\<forall>k. k \<notin> fst ` set (user_selectors () r) \<longrightarrow>
          get_prop (ObjV (own_props r @ user_selectors () r)) k = get_prop r k"
      "get_prop r ''isOk'' = Inr (BoolV False)"
      "invoke stubs r ''map'' [ExternFn 1] 0 = (Inr r, 0)"
      "invoke stubs r ''get'' [] 0 = (Inl (ErrorV Error ''result is undefined''), 0)"
    by blast
  have k: "''isOk'' \<notin> fst ` set (user_selectors () r)"
    by (simp add: user_selectors_def)
  with r(3) have "get_prop (ObjV (own_props r @ user_selectors () r)) ''isOk'' = get_prop r ''isOk''"
    by blast
  with r k show ?thesis by (auto simp: user_selectors_def)
qed

text \<open>
  C2, as the claim states it, fails at \<^verbatim>\<open>null\<close>: \<^verbatim>\<open>Maybe(null)\<close> is the absent container,
  but the wrapper first evaluates \<^verbatim>\<open>isMaybe(null)\<close>, whose property read throws a
  TypeError, so the wrapper throws and resolves nothing.
\<close>

theorem MaybeSelector_null_counterexample:
  "Maybe Null = Inr Nothing
   \<and> isMaybe Null = Inl (ErrorV TypeError ''cannot read property of null'')
   \<and> MaybeSelector_result Null = Inl (ErrorV TypeError ''cannot read property of null'')
   \<and> MaybeSelector user_selectors () Null
       = Inl (ErrorV TypeError ''cannot read property of null'')"
  by (simp add: Maybe_def isMaybe_def get_prop_def MaybeSelector_result_def MaybeSelector_def)

text \<open>
  C2, amended. For a result argument \<open>r\<close> that is neither \<^verbatim>\<open>undefined\<close> nor \<^verbatim>\<open>null\<close>, the
  type-test predicate returns; and when it does not recognise \<open>r\<close> as a container, the
  wrapper succeeds and the container it resolves is \<^verbatim>\<open>Maybe(r)\<close>, the present variant
  wrapping \<open>r\<close>: the wrapper returns that container's properties followed by the factory's.
\<close>

theorem MaybeSelector_raw_value:
  "r \<noteq> Undefined \<Longrightarrow> r \<noteq> Null \<Longrightarrow>
   (\<exists>b. isMaybe r = Inr b)
   \<and> (isMaybe r = Inr False \<longrightarrow>
        (\<exists>j. Maybe r = Inr j \<and> MaybeSelector_result r = Inr j
             \<and> MaybeSelector F s r = Inr (ObjV (own_props j @ F s j))
             \<and> get_prop j ''isNothing'' = Inr (BoolV False)
             \<and> get_prop j ''value'' = Inr r))"
  by (cases r)
    (auto simp: isMaybe_def Maybe_def Just_def MaybeSelector_result_def MaybeSelector_def
      get_prop_def)

theorem MaybeSelector_raw_value_witness:
  "user1 \<noteq> Undefined \<and> user1 \<noteq> Null \<and> isMaybe user1 = Inr False
   \<and> (\<exists>j. Maybe user1 = Inr j \<and> MaybeSelector_result user1 = Inr j
          \<and> MaybeSelector user_selectors () user1
              = Inr (ObjV (own_props j @ [(''profileUrl'', ExternFn 10)]))
          \<and> get_prop j ''value'' = Inr user1)"
proof -
  have a: "user1 \<noteq> Undefined" and b: "user1 \<noteq> Null" and c: "isMaybe user1 = Inr False"
    by (simp_all add: user1_def isMaybe_def get_prop_def)
  from MaybeSelector_raw_value [OF a b, of user_selectors "()"] a b c
  show ?thesis by (auto simp: user_selectors_def)
qed

text \<open>
  C8, as the claim states it, fails for a factory that defines the key \<^verbatim>\<open>value\<close>: the
  spread of the factory's object comes last, so the merged object built from the container
  \<^verbatim>\<open>Just(1)\<close> has the factory's 42 as its \<^verbatim>\<open>value\<close>, not the container's payload 1.
\<close>

theorem selector_payload_counterexample:
  "\<not> isl (Just (NumV 1))
   \<and> isMaybe (projr (Just (NumV 1))) = Inr True
   \<and> get_prop (projr (Just (NumV 1))) ''value'' = Inr (NumV 1)
   \<and> \<not> isl (MaybeSelector value_selectors () (projr (Just (NumV 1))))
   \<and> get_prop (projr (MaybeSelector value_selectors () (projr (Just (NumV 1))))) ''value''
       = Inr (NumV 42)"
  by (simp add: Just_def isMaybe_def get_prop_def MaybeSelector_result_def MaybeSelector_def
      own_props_def value_selectors_def)

text \<open>
  C8, amended. For both wrappers, when the type-test predicate recognises the second
  argument \<open>r\<close> as a container, the wrapper does not wrap it again: the container it
  resolves is \<open>r\<close> itself, and the merged object has \<open>r\<close>'s properties followed by the
  factory's, so every key the factory does not define reads on the merged object as on
  \<open>r\<close>: the variant tag and the payload are those of the input container whenever the
  factory defines neither the tag's key nor \<^verbatim>\<open>value\<close>. The predicates recognise every
  container the constructors build: absent, present, Ok and Err.
\<close>

theorem selector_keeps_container:
  "(isMaybe r = Inr True \<longrightarrow>
      MaybeSelector_result r = Inr r
      \<and> MaybeSelector F s r = Inr (ObjV (own_props r @ F s r))
      \<and> (\<forall>k. k \<notin> fst ` set (F s r) \<longrightarrow>
            get_prop (ObjV (own_props r @ F s r)) k = get_prop r k))
   \<and> (isResult r = Inr True \<longrightarrow>
      ResultSelector_result r = Inr r
      \<and> ResultSelector F s r = Inr (ObjV (own_props r @ F s r))
      \<and> (\<forall>k. k \<notin> fst ` set (F s r) \<longrightarrow>
            get_prop (ObjV (own_props r @ F s r)) k = get_prop r k))
   \<and> isMaybe Nothing = Inr True
   \<and> (Just x = Inr r \<longrightarrow> isMaybe r = Inr True)
   \<and> (Ok x = Inr r \<longrightarrow> isResult r = Inr True)
   \<and> (Err x = Inr r \<longrightarrow> isResult r = Inr True)"
proof -
  have "MaybeSelector_result r = Inr r
      \<and> MaybeSelector F s r = Inr (ObjV (own_props r @ F s r))
      \<and> (\<forall>k. k \<notin> fst ` set (F s r) \<longrightarrow>
            get_prop (ObjV (own_props r @ F s r)) k = get_prop r k)"
    if m: "isMaybe r = Inr True"
  proof -
    from m obtain ps where ps: "r = ObjV ps"
      using isMaybe_object by blast
    from m ps have "MaybeSelector_result r = Inr r"
      by (simp add: MaybeSelector_result_def)
    then show ?thesis
      using ps by (simp add: MaybeSelector_def get_prop_spread)
  qed
  moreover have "ResultSelector_result r = Inr r
      \<and> ResultSelector F s r = Inr (ObjV (own_props r @ F s r))
      \<and> (\<forall>k. k \<notin> fst ` set (F s r) \<longrightarrow>
            get_prop (ObjV (own_props r @ F s r)) k = get_prop r k)"
    if m: "isResult r = Inr True"
  proof -
    from m obtain ps where ps: "r = ObjV ps"
      using isResult_object by blast
    from m ps have "ResultSelector_result r = Inr r"
      by (simp add: ResultSelector_result_def)
    then show ?thesis
      using ps by (simp add: ResultSelector_def get_prop_spread)
  qed
  moreover have "isMaybe Nothing = Inr True"
    by (simp add: isMaybe_def Nothing_def get_prop_def)
  moreover have "isMaybe r = Inr True" if "Just x = Inr r"
    using that by (auto simp: Just_def isMaybe_def get_prop_def split: if_splits)
  moreover have "isResult r = Inr True" if "Ok x = Inr r"
    using that by (auto simp: Ok_def isResult_def get_prop_def split: if_splits)
  moreover have "isResult r = Inr True" if "Err x = Inr r"
    using that by (auto simp: Err_def isResult_def get_prop_def split: if_splits)
  ultimately show ?thesis by blast
qed

theorem selector_keeps_container_witness:
  "(\<exists>j. Just user1 = Inr j \<and> isMaybe j = Inr True
        \<and> MaybeSelector_result j = Inr j
        \<and> MaybeSelector user_selectors () j = Inr (ObjV (own_props j @ user_selectors () j))
        \<and> ''value'' \<notin> fst ` set (user_selectors () j)
        \<and> get_prop (ObjV (own_props j @ user_selectors () j)) ''value'' = Inr user1)
   \<and> (\<exists>r. Err (ErrorV Error ''fail'') = Inr r \<and> isResult r = Inr True
        \<and> ResultSelector_result r = Inr r
        \<and> ''isOk'' \<notin> fst ` set (user_selectors () r)
        \<and> get_prop (ObjV (own_props r @ user_selectors () r)) ''isOk'' = Inr (BoolV False))"
proof -
  obtain j where j: "Just user1 = Inr j" "get_prop j ''value'' = Inr user1"
    by (simp add: Just_def user1_def get_prop_def)
  obtain r where r: "Err (ErrorV Error ''fail'') = Inr r"
      "get_prop r ''isOk'' = Inr (BoolV False)"
    by (simp add: Err_def instanceof_Error_def get_prop_def)
  have kj: "''value'' \<notin> fst ` set (user_selectors () j)"
    and kr: "''isOk'' \<notin> fst ` set (user_selectors () r)"
    by (simp_all add: user_selectors_def)
  from selector_keeps_container [of j user_selectors "()" user1] j(1) kj
  have "isMaybe j = Inr True" "MaybeSelector_result j = Inr j"
    "MaybeSelector user_selectors () j = Inr (ObjV (own_props j @ user_selectors () j))"
    "get_prop (ObjV (own_props j @ user_selectors () j)) ''value'' = get_prop j ''value''"
    by blast+
  moreover
  from selector_keeps_container [of r user_selectors "()" "ErrorV Error ''fail''"] r(1) kr
  have "isResult r = Inr True" "ResultSelector_result r = Inr r"
    "get_prop (ObjV (own_props r @ user_selectors () r)) ''isOk'' = get_prop r ''isOk''"
    by blast+
  ultimately show ?thesis using j r kj kr by auto
qed

lemma MaybeSelector_result_object: "MaybeSelector_result r = Inr result \<Longrightarrow> \<exists>ps. result = ObjV ps"
  using isMaybe_object [of r]
  by (auto simp: MaybeSelector_result_def Nothing_def Just_def
      split: if_splits sum.splits bool.splits)

lemma ResultSelector_result_object: "ResultSelector_result r = Inr result \<Longrightarrow> \<exists>ps. result = ObjV ps"
  using isResult_object [of r]
  by (auto simp: ResultSelector_result_def Result_def Err_def Ok_def
      split: if_splits sum.splits bool.splits)

lemma keys_Maybe: "Maybe b = Inr c \<Longrightarrow> keys c = Maybe_keys"
proof -
  assume "Maybe b = Inr c"
  then have "map fst (own_props c)
      = [''flatMap'', ''forEach'', ''get'', ''isNothing'', ''join'', ''map'', ''use'', ''value'']"
    by (auto simp: Maybe_def Just_def Nothing_def own_props_def split: if_splits)
  then show ?thesis
    by (simp add: keys_def Maybe_keys_def)
qed

lemma keys_Result: "Result b = Inr c \<Longrightarrow> keys c = Result_keys"
proof -
  assume "Result b = Inr c"
  then have "map fst (own_props c)
      = [''flatMap'', ''forEach'', ''get'', ''getError'', ''getValue'', ''isOk'', ''join'', ''map'',
         ''use'', ''value'']"
    by (auto simp: Result_def Err_def Ok_def own_props_def split: if_splits)
  then show ?thesis
    by (simp add: keys_def Result_keys_def)
qed

lemma Maybe_map_plain:
  "Maybe x = Inr result \<Longrightarrow> invoke ext result ''map'' args t = (Inr c, t') \<Longrightarrow>
   keys c = Maybe_keys"
proof (cases "x = Undefined \<or> x = Null")
  case True
  assume "Maybe x = Inr result" "invoke ext result ''map'' args t = (Inr c, t')"
  with True have "Maybe Undefined = Inr c"
    by (auto simp: Maybe_def Nothing_def invoke_def get_prop_def)
  then show ?thesis by (rule keys_Maybe)
next
  case False
  assume "Maybe x = Inr result" "invoke ext result ''map'' args t = (Inr c, t')"
  with False obtain b where "Maybe b = Inr c"
    by (auto simp: Maybe_def [of x] Just_def invoke_def get_prop_def
        split: prod.splits sum.splits)
  then show ?thesis by (rule keys_Maybe)
qed

lemma Result_map_plain:
  "Result x = Inr result \<Longrightarrow> invoke ext result ''map'' args t = (Inr c, t') \<Longrightarrow>
   keys c = Result_keys"
proof (cases "instanceof_Error x")
  case True
  assume "Result x = Inr result" "invoke ext result ''map'' args t = (Inr c, t')"
  with True have "Result x = Inr c"
    by (auto simp: Result_def Err_def invoke_def get_prop_def)
  then show ?thesis by (rule keys_Result)
next
  case False
  assume "Result x = Inr result" "invoke ext result ''map'' args t = (Inr c, t')"
  with False obtain b where "Result b = Inr c"
    by (auto simp: Result_def [of x] Ok_def invoke_def get_prop_def
        split: prod.splits sum.splits)
  then show ?thesis by (rule keys_Result)
qed

lemma invoke_spread:
  "k \<notin> fst ` set qs \<Longrightarrow>
   invoke ext (ObjV (own_props (ObjV ps) @ qs)) k args t = invoke ext (ObjV ps) k args t"
  by (simp add: invoke_def get_prop_spread)

text \<open>
  C10, as the claim states it, fails in two ways. A factory that defines the key \<^verbatim>\<open>map\<close>
  replaces the operation: on the object merged from \<^verbatim>\<open>Just(1)\<close>, \<^verbatim>\<open>map\<close> is the factory's
  function, not the container's. And \<^verbatim>\<open>flatMap\<close> returns what its callback returns: with
  the callback \<^verbatim>\<open>u => user(state, u)\<close>, the object returned from the merged object of the
  tests' user is a merged object again, carrying the accessor \<^verbatim>\<open>profileUrl\<close>, which is no
  key of a plain container.
\<close>

theorem merge_operations_counterexample:
  "\<not> isl (Just (NumV 1))
   \<and> get_prop (projr (Just (NumV 1))) ''map'' = Inr (FunV (Just_map (NumV 1)))
   \<and> \<not> isl (MaybeSelector map_selectors () (projr (Just (NumV 1))))
   \<and> get_prop (projr (MaybeSelector map_selectors () (projr (Just (NumV 1))))) ''map''
       = Inr (ExternFn 11)
   \<and> \<not> isl (MaybeSelector user_selectors () user1)
   \<and> invoke stubs (projr (MaybeSelector user_selectors () user1)) ''flatMap'' [ExternFn 4] 0
       = (MaybeSelector user_selectors () user1, 1)
   \<and> ''profileUrl'' \<in> keys (projr (MaybeSelector user_selectors () user1))
   \<and> ''profileUrl'' \<notin> Maybe_keys"
  by (simp add: Just_def isMaybe_def get_prop_def MaybeSelector_result_def MaybeSelector_def
      own_props_def map_selectors_def user_selectors_def user1_def invoke_def stubs_def
      arg_def keys_def Maybe_keys_def)

text \<open>
  C10, amended. The merge is one level deep. For every merged object \<open>m\<close> a selector
  wrapper returns, built from the resolved container \<open>result\<close>: under each key the factory
  does not define, \<open>m\<close> holds the very property of \<open>result\<close>, so calling that operation on
  \<open>m\<close> is calling it on \<open>result\<close>; and when \<open>result\<close> is a container built by the smart
  constructor and the factory does not define \<^verbatim>\<open>map\<close>, every container \<^verbatim>\<open>m.map(...)\<close>
  returns is a plain one, with the keys of the container interface and no others, so none
  of the factory's extra accessors.
\<close>

theorem merge_one_level:
  "(MaybeSelector F s r = Inr m \<longrightarrow>
      (\<exists>result. MaybeSelector_result r = Inr result
         \<and> m = ObjV (own_props result @ F s result)
         \<and> (\<forall>k. k \<notin> fst ` set (F s result) \<longrightarrow>
               get_prop m k = get_prop result k
               \<and> invoke ext m k args t = invoke ext result k args t)
         \<and> (''map'' \<notin> fst ` set (F s result) \<and> Maybe x = Inr result
              \<and> invoke ext m ''map'' args t = (Inr c, t') \<longrightarrow>
             keys c = Maybe_keys)))
   \<and> (ResultSelector F s r = Inr m \<longrightarrow>
      (\<exists>result. ResultSelector_result r = Inr result
         \<and> m = ObjV (own_props result @ F s result)
         \<and> (\<forall>k. k \<notin> fst ` set (F s result) \<longrightarrow>
               get_prop m k = get_prop result k
               \<and> invoke ext m k args t = invoke ext result k args t)
         \<and> (''map'' \<notin> fst ` set (F s result) \<and> Result x = Inr result
              \<and> invoke ext m ''map'' args t = (Inr c, t') \<longrightarrow>
             keys c = Result_keys)))"
proof (intro conjI impI)
  assume "MaybeSelector F s r = Inr m"
  then obtain result where res: "MaybeSelector_result r = Inr result"
    and m: "m = ObjV (own_props result @ F s result)"
    by (auto simp: MaybeSelector_def split: sum.splits)
  from res obtain ps where ps: "result = ObjV ps"
    using MaybeSelector_result_object by blast
  have same: "get_prop m k = get_prop result k
      \<and> invoke ext m k args t = invoke ext result k args t"
    if "k \<notin> fst ` set (F s result)" for k
    using that m ps by (simp add: get_prop_spread invoke_spread)
  have "keys c = Maybe_keys"
    if "''map'' \<notin> fst ` set (F s result)" "Maybe x = Inr result"
      "invoke ext m ''map'' args t = (Inr c, t')"
    using that same [of "''map''"] Maybe_map_plain [of x result ext args t c t'] by simp
  with res m same
  show "\<exists>result. MaybeSelector_result r = Inr result
         \<and> m = ObjV (own_props result @ F s result)
         \<and> (\<forall>k. k \<notin> fst ` set (F s result) \<longrightarrow>
               get_prop m k = get_prop result k
               \<and> invoke ext m k args t = invoke ext result k args t)
         \<and> (''map'' \<notin> fst ` set (F s result) \<and> Maybe x = Inr result
              \<and> invoke ext m ''map'' args t = (Inr c, t') \<longrightarrow>
             keys c = Maybe_keys)"
    by blast
next
  assume "ResultSelector F s r = Inr m"
  then obtain result where res: "ResultSelector_result r = Inr result"
    and m: "m = ObjV (own_props result @ F s result)"
    by (auto simp: ResultSelector_def split: sum.splits)
  from res obtain ps where ps: "result = ObjV ps"
    using ResultSelector_result_object by blast
  have same: "get_prop m k = get_prop result k
      \<and> invoke ext m k args t = invoke ext result k args t"
    if "k \<notin> fst ` set (F s result)" for k
    using that m ps by (simp add: get_prop_spread invoke_spread)
  have "keys c = Result_keys"
    if "''map'' \<notin> fst ` set (F s result)" "Result x = Inr result"
      "invoke ext m ''map'' args t = (Inr c, t')"
    using that same [of "''map''"] Result_map_plain [of x result ext args t c t'] by simp
  with res m same
  show "\<exists>result. ResultSelector_result r = Inr result
         \<and> m = ObjV (own_props result @ F s result)
         \<and> (\<forall>k. k \<notin> fst ` set (F s result) \<longrightarrow>
               get_prop m k = get_prop result k
               \<and> invoke ext m k args t = invoke ext result k args t)
         \<and> (''map'' \<notin> fst ` set (F s result) \<and> Result x = Inr result
              \<and> invoke ext m ''map'' args t = (Inr c, t') \<longrightarrow>
             keys c = Result_keys)"
    by blast
qed

theorem merge_one_level_witness:
  "(\<exists>m c. MaybeSelector user_selectors () user1 = Inr m
        \<and> ''profileUrl'' \<in> keys m
        \<and> get_prop m ''map'' = Inr (FunV (Just_map user1))
        \<and> invoke stubs m ''map'' [ExternFn 1] 0 = (Inr c, 1)
        \<and> get_prop c ''value'' = Inr (StrV ''http://website.test/user/1/profile'')
        \<and> keys c = Maybe_keys \<and> ''profileUrl'' \<notin> keys c)
   \<and> (\<exists>m c. ResultSelector user_selectors () Undefined = Inr m
        \<and> ''profileUrl'' \<in> keys m
        \<and> invoke stubs m ''map'' [ExternFn 1] 0 = (Inr c, 0)
        \<and> keys c = Result_keys \<and> ''profileUrl'' \<notin> keys c)"
proof -
  define m where "m = projr (MaybeSelector user_selectors () user1)"
  define c where "c = projr (fst (invoke stubs m ''map'' [ExternFn 1] 0))"
  have m: "MaybeSelector user_selectors () user1 = Inr m"
    and res: "MaybeSelector_result user1 = Maybe user1"
    and km: "''profileUrl'' \<in> keys m"
    and pm: "get_prop m ''map'' = Inr (FunV (Just_map user1))"
    unfolding m_def
    by (simp_all add: MaybeSelector_def MaybeSelector_result_def isMaybe_def get_prop_def
        Maybe_def Just_def user1_def user_selectors_def own_props_def keys_def)
  have c: "invoke stubs m ''map'' [ExternFn 1] 0 = (Inr c, 1)"
    and vc: "get_prop c ''value'' = Inr (StrV ''http://website.test/user/1/profile'')"
    unfolding c_def m_def
    by (simp_all add: MaybeSelector_def MaybeSelector_result_def isMaybe_def get_prop_def
        Maybe_def Just_def user1_def user_selectors_def own_props_def invoke_def stubs_def
        arg_def)
  have nk: "''map'' \<notin> fst ` set (user_selectors () result)" for result :: val
    by (simp add: user_selectors_def)
  from merge_one_level [of user_selectors "()" user1 m stubs "[ExternFn 1]" 0 user1 c 1] m
  obtain result where "MaybeSelector_result user1 = Inr result"
    and "''map'' \<notin> fst ` set (user_selectors () result) \<and> Maybe user1 = Inr result
          \<and> invoke stubs m ''map'' [ExternFn 1] 0 = (Inr c, 1) \<longrightarrow> keys c = Maybe_keys"
    by blast
  with res nk c have kc: "keys c = Maybe_keys"
    by simp
  then have nc: "''profileUrl'' \<notin> keys c"
    by (simp add: Maybe_keys_def)
  define e where "e = ErrorV Error ''result is undefined''"
  define n where "n = projr (ResultSelector user_selectors () Undefined)"
  define d where "d = projr (fst (invoke stubs n ''map'' [ExternFn 1] 0))"
  have n: "ResultSelector user_selectors () Undefined = Inr n"
    and res': "ResultSelector_result Undefined = Result e"
    and kn: "''profileUrl'' \<in> keys n"
    unfolding n_def e_def
    by (simp_all add: ResultSelector_def ResultSelector_result_def Result_def Err_def
        instanceof_Error_def user_selectors_def own_props_def keys_def)
  have d: "invoke stubs n ''map'' [ExternFn 1] 0 = (Inr d, 0)"
    unfolding d_def n_def
    by (simp add: ResultSelector_def ResultSelector_result_def Err_def instanceof_Error_def
        get_prop_def user_selectors_def own_props_def invoke_def)
  from merge_one_level [of user_selectors "()" Undefined n stubs "[ExternFn 1]" 0 e d 0] n
  obtain result where "ResultSelector_result Undefined = Inr result"
    and "''map'' \<notin> fst ` set (user_selectors () result) \<and> Result e = Inr result
          \<and> invoke stubs n ''map'' [ExternFn 1] 0 = (Inr d, 0) \<longrightarrow> keys d = Result_keys"
    by blast
  with res' nk d have kd: "keys d = Result_keys"
    by simp
  then have nd: "''profileUrl'' \<notin> keys d"
    by (simp add: Result_keys_def)
  from m km pm c vc kc nc n kn d kd nd show ?thesis
    by blast
qed

end
